theory Spec2Isabelle
  imports Main "HOL-Library.AList"
begin

section \<open>Values, exceptions and the process environment\<close>

text \<open>
  The service (main.py) is a FastAPI application. Its handlers build JSON-like Python
  values from dict literals; a dict literal is an association list in the order the
  source writes its keys. A finite float is kept as the decimal literal it was read
  from: the code copies floats and never computes with them. The request body is
  decoded by Python's JSON decoder, which also accepts \<open>NaN\<close>, \<open>Infinity\<close> and
  \<open>-Infinity\<close>; these three floats are values of their own.
\<close>

datatype pyval =
    PNone
  | PBool bool
  | PInt int
  | PFloat int nat  \<comment> \<open>\<open>PFloat m d\<close> is the literal with digits \<open>m\<close> and \<open>d\<close> decimal places\<close>
  | PNaN
  | PInfinity
  | PNegInfinity
  | PStr string
  | PList "pyval list"
  | PDict "(string \<times> pyval) list"

type_synonym pydict = "(string \<times> pyval) list"

datatype pyexn =
    HTTPException nat string  \<comment> \<open>status code and detail\<close>
  | UnboundLocalError string  \<comment> \<open>the local name that was read before being bound\<close>
  | KeyError string

text \<open>Python truthiness, as \<open>not x\<close> and \<open>if x\<close> use it.\<close>

fun truthy :: "pyval \<Rightarrow> bool" where
  "truthy PNone = False"
| "truthy (PBool b) = b"
| "truthy (PInt i) = (i \<noteq> 0)"
| "truthy (PFloat m d) = (m \<noteq> 0)"
| "truthy PNaN = True"
| "truthy PInfinity = True"
| "truthy PNegInfinity = True"
| "truthy (PStr s) = (s \<noteq> [])"
| "truthy (PList xs) = (xs \<noteq> [])"
| "truthy (PDict kvs) = (kvs \<noteq> [])"

text \<open>\<open>os.environ.get(name, default)\<close> over the process environment.\<close>

type_synonym environ = "string \<rightharpoonup> string"

definition environ_get :: "environ \<Rightarrow> string \<Rightarrow> string \<Rightarrow> string" where
  "environ_get env name dflt = (case env name of None \<Rightarrow> dflt | Some v \<Rightarrow> v)"

definition API_KEY :: "environ \<Rightarrow> string" where
  "API_KEY env = environ_get env ''API_KEY'' []"

definition IB_USERNAME :: "environ \<Rightarrow> string" where
  "IB_USERNAME env = environ_get env ''IB_USERNAME'' []"

definition IB_PASSWORD :: "environ \<Rightarrow> string" where
  "IB_PASSWORD env = environ_get env ''IB_PASSWORD'' []"

definition USER_ID :: "environ \<Rightarrow> string" where
  "USER_ID env = environ_get env ''USER_ID'' []"

definition ENVIRONMENT :: "environ \<Rightarrow> string" where
  "ENVIRONMENT env = environ_get env ''ENVIRONMENT'' ''development''"

section \<open>Module globals\<close>

text \<open>
  The two mutable module globals: the flag \<open>connected\<close> and the dict \<open>server_state\<close>.
  Every \<open>datetime.utcnow().isoformat()\<close> of the source is the argument \<open>now\<close> of the
  operation that evaluates it.
\<close>

record gstate =
  connected :: bool
  server_state :: pydict

definition module_init :: "environ \<Rightarrow> string \<Rightarrow> gstate" where
  "module_init env now =
     \<lparr> connected = False,
       server_state =
         [ (''status'', PStr ''initializing''),
           (''user_id'', PStr (USER_ID env)),
           (''account_id'', PStr (''ib_'' @ IB_USERNAME env)),
           (''connected'', PBool False),
           (''last_connected'', PNone),
           (''startup_time'', PStr now),
           (''ib_gateway_version'', PNone),
           (''error_message'', PNone) ] \<rparr>"

text \<open>\<open>server_state[k] = v\<close>: the key keeps its position, a new key is appended.\<close>

definition set_item :: "string \<Rightarrow> pyval \<Rightarrow> gstate \<Rightarrow> gstate" where
  "set_item k v s = s\<lparr>server_state := AList.update k v (server_state s)\<rparr>"

definition get_item :: "pydict \<Rightarrow> string \<Rightarrow> pyexn + pyval" where
  "get_item d k = (case map_of d k of None \<Rightarrow> Inl (KeyError k) | Some v \<Rightarrow> Inr v)"

section \<open>Security dependency\<close>

text \<open>
  \<open>api_key_header = APIKeyHeader(name="X-API-Key")\<close> is FastAPI's class, constructed with
  its default \<open>auto_error\<close>. It reads \<open>request.headers.get("X-API-Key")\<close> and, under
  \<open>if not api_key\<close>, raises its own HTTPException with detail "Not authenticated", so
  that \<open>verify_api_key\<close> is not called for a request without the header (\<open>None\<close>) or with
  an empty value. The status code of that exception belongs to the framework (403 in
  the releases that raise HTTP_403_FORBIDDEN there, 401 in later ones) and is the
  parameter \<open>missing_status\<close>.
\<close>

definition api_key_header :: "nat \<Rightarrow> string option \<Rightarrow> pyexn + string" where
  "api_key_header missing_status hdr =
     (case hdr of
        None \<Rightarrow> Inl (HTTPException missing_status ''Not authenticated'')
      | Some k \<Rightarrow>
          if k = [] then Inl (HTTPException missing_status ''Not authenticated'')
          else Inr k)"

definition verify_api_key :: "environ \<Rightarrow> string \<Rightarrow> pyexn + string" where
  "verify_api_key env api_key =
     (if api_key \<noteq> API_KEY env then Inl (HTTPException 401 ''Invalid API Key'')
      else Inr api_key)"

text \<open>\<open>dependencies=[Depends(verify_api_key)]\<close>: the header dependency, then the check.\<close>

definition depends_verify_api_key :: "nat \<Rightarrow> environ \<Rightarrow> string option \<Rightarrow> pyexn + string" where
  "depends_verify_api_key missing_status env hdr =
     (case api_key_header missing_status hdr of
        Inl e \<Rightarrow> Inl e
      | Inr k \<Rightarrow> verify_api_key env k)"

section \<open>Connection management\<close>

text \<open>
  The \<open>try\<close> block of \<open>connect_to_ib\<close>: five stores into \<open>server_state\<close>, one into the
  global \<open>connected\<close>, and \<open>return connected\<close>. \<open>Inl msg\<close> stands for an Exception raised
  inside the block, with \<open>str(e) = msg\<close>; no statement of the block raises.
\<close>

definition connect_to_ib_try :: "string \<Rightarrow> gstate \<Rightarrow> (string + bool) \<times> gstate" where
  "connect_to_ib_try now s =
     (let s1 = set_item ''status'' (PStr ''connecting'') s;
          s2 = s1\<lparr>connected := True\<rparr>;
          s3 = set_item ''connected'' (PBool (connected s2)) s2;
          s4 = set_item ''last_connected'' (PStr now) s3;
          s5 = set_item ''status'' (PStr ''connected'') s4;
          s6 = set_item ''ib_gateway_version'' (PStr ''Demo Version'') s5
      in (Inr (connected s6), s6))"

definition connect_to_ib_except :: "string \<Rightarrow> gstate \<Rightarrow> bool \<times> gstate" where
  "connect_to_ib_except msg s =
     (let s1 = set_item ''status'' (PStr ''error'') s;
          s2 = set_item ''error_message'' (PStr msg) s1;
          s3 = s2\<lparr>connected := False\<rparr>;
          s4 = set_item ''connected'' (PBool (connected s3)) s3
      in (False, s4))"

definition connect_to_ib :: "string \<Rightarrow> gstate \<Rightarrow> bool \<times> gstate" where
  "connect_to_ib now s =
     (if connected s then (True, s)
      else (case connect_to_ib_try now s of
              (Inr r, s') \<Rightarrow> (r, s')
            | (Inl msg, s') \<Rightarrow> connect_to_ib_except msg s'))"

text \<open>\<open>disconnect_from_ib\<close>, with its \<open>try\<close> block and \<open>except\<close> branch in the same way.\<close>

definition disconnect_from_ib_try :: "gstate \<Rightarrow> (string + bool) \<times> gstate" where
  "disconnect_from_ib_try s =
     (let s1 = s\<lparr>connected := False\<rparr>;
          s2 = set_item ''connected'' (PBool (connected s1)) s1;
          s3 = set_item ''status'' (PStr ''disconnected'') s2
      in (Inr True, s3))"

definition disconnect_from_ib_except :: "string \<Rightarrow> gstate \<Rightarrow> bool \<times> gstate" where
  "disconnect_from_ib_except msg s = (False, set_item ''error_message'' (PStr msg) s)"

definition disconnect_from_ib :: "gstate \<Rightarrow> bool \<times> gstate" where
  "disconnect_from_ib s =
     (if \<not> connected s then (True, s)
      else (case disconnect_from_ib_try s of
              (Inr r, s') \<Rightarrow> (r, s')
            | (Inl msg, s') \<Rightarrow> disconnect_from_ib_except msg s'))"

section \<open>Name resolution inside a handler\<close>

text \<open>
  Python decides the scope of a name per function, at compile time: a name that the
  function body assigns, and does not declare \<open>global\<close>, is a local of that function
  everywhere in the body. Reading a local that is not bound yet raises
  UnboundLocalError. \<open>connect_to_ib\<close> and \<open>disconnect_from_ib\<close> declare
  \<open>global connected, server_state\<close>; the six data handlers assign \<open>connected\<close> and
  declare nothing.
\<close>

datatype scope = Local | Global

definition scope_of :: "string list \<Rightarrow> string list \<Rightarrow> string \<Rightarrow> scope" where
  "scope_of global_decls assigned x =
     (if x \<in> set assigned \<and> x \<notin> set global_decls then Local else Global)"

type_synonym frame = "string \<rightharpoonup> pyval"

definition load_connected :: "scope \<Rightarrow> frame \<Rightarrow> gstate \<Rightarrow> pyexn + pyval" where
  "load_connected sc fr s =
     (case sc of
        Global \<Rightarrow> Inr (PBool (connected s))
      | Local \<Rightarrow> (case fr ''connected'' of
                   None \<Rightarrow> Inl (UnboundLocalError ''connected'')
                 | Some v \<Rightarrow> Inr v))"

definition store_connected :: "scope \<Rightarrow> bool \<Rightarrow> frame \<Rightarrow> gstate \<Rightarrow> frame \<times> gstate" where
  "store_connected sc b fr s =
     (case sc of
        Global \<Rightarrow> (fr, s\<lparr>connected := b\<rparr>)
      | Local \<Rightarrow> (fr(''connected'' \<mapsto> PBool b), s))"

text \<open>
  The four lines every data handler starts with:
  \<^verbatim>\<open>
    if not connected:
        connected = await connect_to_ib()
    if not connected:
        raise HTTPException(status_code=503, detail="Not connected to IB")
  \<close>
  \<open>sc\<close> is the scope of \<open>connected\<close> in the handler, \<open>fr\<close> its frame on entry.
\<close>

definition connection_check ::
  "scope \<Rightarrow> string \<Rightarrow> frame \<Rightarrow> gstate \<Rightarrow> (pyexn + frame) \<times> gstate" where
  "connection_check sc now fr s =
     (case load_connected sc fr s of
        Inl e \<Rightarrow> (Inl e, s)
      | Inr c \<Rightarrow>
          (let (fr1, s1) =
                 (if \<not> truthy c
                  then (case connect_to_ib now s of (r, s') \<Rightarrow> store_connected sc r fr s')
                  else (fr, s))
           in (case load_connected sc fr1 s1 of
                 Inl e \<Rightarrow> (Inl e, s1)
               | Inr c1 \<Rightarrow>
                   if \<not> truthy c1
                   then (Inl (HTTPException 503 ''Not connected to IB''), s1)
                   else (Inr fr1, s1))))"

section \<open>Lifecycle and session endpoints\<close>

text \<open>
  \<open>startup_event\<close> logs its warnings, builds a fresh \<open>BackgroundTasks()\<close> and adds
  \<open>connect_to_ib\<close> to it; that object is never run or returned, so no global changes.
  \<open>shutdown_event\<close> awaits \<open>disconnect_from_ib\<close>.
\<close>

definition startup_event :: "gstate \<Rightarrow> gstate" where
  "startup_event s = s"

definition shutdown_event :: "gstate \<Rightarrow> gstate" where
  "shutdown_event s = snd (disconnect_from_ib s)"

definition health_check :: "environ \<Rightarrow> string \<Rightarrow> gstate \<Rightarrow> pyval" where
  "health_check env ts s =
     PDict [ (''status'', PStr ''healthy''),
             (''timestamp'', PStr ts),
             (''service'', PStr ''ibearmy''),
             (''user_id'', PStr (USER_ID env)),
             (''ib_connection'', PBool (connected s)) ]"

definition get_status :: "gstate \<Rightarrow> pyval" where
  "get_status s = PDict (server_state s)"

definition connect :: "string \<Rightarrow> string \<Rightarrow> gstate \<Rightarrow> (pyexn + pyval) \<times> gstate" where
  "connect now ts s =
     (case connect_to_ib now s of
        (success, s') \<Rightarrow>
          (case get_item (server_state s') ''status'' of
             Inl e \<Rightarrow> (Inl e, s')
           | Inr st \<Rightarrow>
               (Inr (PDict [ (''success'', PBool success),
                             (''status'', st),
                             (''timestamp'', PStr ts) ]), s')))"

definition disconnect :: "string \<Rightarrow> gstate \<Rightarrow> (pyexn + pyval) \<times> gstate" where
  "disconnect ts s =
     (case disconnect_from_ib s of
        (success, s') \<Rightarrow>
          (case get_item (server_state s') ''status'' of
             Inl e \<Rightarrow> (Inl e, s')
           | Inr st \<Rightarrow>
               (Inr (PDict [ (''success'', PBool success),
                             (''status'', st),
                             (''timestamp'', PStr ts) ]), s')))"

section \<open>Data endpoints\<close>

text \<open>
  Each handler is its connection check followed by the code that builds the mock
  response. The response code of a handler \<open>h\<close> is \<open>h_response\<close>; the handler passes
  the scope of \<open>connected\<close> computed from its own \<open>global\<close> declarations (none) and the
  names its body assigns, and starts from a frame in which \<open>connected\<close> is not bound
  (no handler has a parameter of that name).
\<close>

definition get_accounts_response :: "environ \<Rightarrow> pyval" where
  "get_accounts_response env =
     PList [ PDict [ (''account_id'', PStr (''ib_'' @ IB_USERNAME env)),
                     (''type'', PStr ''securities''),
                     (''name'', PStr ''Securities Account''),
                     (''currency'', PStr ''USD''),
                     (''balance'', PFloat 100000 1),
                     (''equity'', PFloat 105000 1),
                     (''margin'', PFloat 20000 1),
                     (''available_funds'', PFloat 80000 1) ] ]"

definition get_accounts :: "environ \<Rightarrow> string \<Rightarrow> gstate \<Rightarrow> (pyexn + pyval) \<times> gstate" where
  "get_accounts env now s =
     (case connection_check (scope_of [] [''connected'', ''account''] ''connected'')
             now Map.empty s of
        (Inl e, s') \<Rightarrow> (Inl e, s')
      | (Inr fr, s') \<Rightarrow> (Inr (get_accounts_response env), s'))"

definition get_positions_response :: "pyval" where
  "get_positions_response =
     PList [ PDict [ (''symbol'', PStr ''AAPL''),
                     (''secType'', PStr ''STK''),
                     (''exchange'', PStr ''SMART''),
                     (''currency'', PStr ''USD''),
                     (''position'', PInt 100),
                     (''avgCost'', PFloat 1500 1),
                     (''marketPrice'', PFloat 1550 1),
                     (''marketValue'', PFloat 155000 1),
                     (''unrealizedPNL'', PFloat 5000 1),
                     (''realizedPNL'', PFloat 0 1) ],
             PDict [ (''symbol'', PStr ''MSFT''),
                     (''secType'', PStr ''STK''),
                     (''exchange'', PStr ''SMART''),
                     (''currency'', PStr ''USD''),
                     (''position'', PInt 50),
                     (''avgCost'', PFloat 2500 1),
                     (''marketPrice'', PFloat 2600 1),
                     (''marketValue'', PFloat 130000 1),
                     (''unrealizedPNL'', PFloat 5000 1),
                     (''realizedPNL'', PFloat 2000 1) ] ]"

definition get_positions :: "string \<Rightarrow> gstate \<Rightarrow> (pyexn + pyval) \<times> gstate" where
  "get_positions now s =
     (case connection_check (scope_of [] [''connected'', ''positions''] ''connected'')
             now Map.empty s of
        (Inl e, s') \<Rightarrow> (Inl e, s')
      | (Inr fr, s') \<Rightarrow> (Inr get_positions_response, s'))"

definition get_orders_response :: "pydict list" where
  "get_orders_response =
     [ [ (''orderId'', PInt 1),
         (''clientId'', PInt 1),
         (''action'', PStr ''BUY''),
         (''totalQuantity'', PInt 100),
         (''orderType'', PStr ''LMT''),
         (''lmtPrice'', PFloat 1500 1),
         (''auxPrice'', PFloat 0 1),
         (''status'', PStr ''Filled''),
         (''filled'', PInt 100),
         (''remaining'', PInt 0),
         (''avgFillPrice'', PFloat 1495 1),
         (''lastFillPrice'', PFloat 1495 1),
         (''symbol'', PStr ''AAPL''),
         (''secType'', PStr ''STK''),
         (''exchange'', PStr ''SMART'') ] ]"

definition get_orders :: "string \<Rightarrow> gstate \<Rightarrow> (pyexn + pyval) \<times> gstate" where
  "get_orders now s =
     (case connection_check (scope_of [] [''connected'', ''orders''] ''connected'')
             now Map.empty s of
        (Inl e, s') \<Rightarrow> (Inl e, s')
      | (Inr fr, s') \<Rightarrow> (Inr (PList (map PDict get_orders_response)), s'))"

text \<open>
  \<open>order_data: Dict[str, Any]\<close> is the decoded JSON body. \<open>order_data[k]\<close> raises KeyError
  on a missing key, \<open>order_data.get(k, d)\<close> gives \<open>d\<close>.
\<close>

type_synonym order_data = "string \<rightharpoonup> pyval"

definition od_item :: "order_data \<Rightarrow> string \<Rightarrow> pyexn + pyval" where
  "od_item od k = (case od k of None \<Rightarrow> Inl (KeyError k) | Some v \<Rightarrow> Inr v)"

definition od_get :: "order_data \<Rightarrow> string \<Rightarrow> pyval \<Rightarrow> pyval" where
  "od_get od k dflt = (case od k of None \<Rightarrow> dflt | Some v \<Rightarrow> v)"

definition bind_exn :: "pyexn + 'a \<Rightarrow> ('a \<Rightarrow> pyexn + 'b) \<Rightarrow> pyexn + 'b" where
  "bind_exn r f = (case r of Inl e \<Rightarrow> Inl e | Inr v \<Rightarrow> f v)"

definition required_fields :: "string list" where
  "required_fields = [''symbol'', ''action'', ''quantity'', ''orderType'']"

text \<open>The loop \<open>for field in required_fields\<close>: the first missing field raises.\<close>

fun check_required :: "string list \<Rightarrow> order_data \<Rightarrow> pyexn + unit" where
  "check_required [] od = Inr ()"
| "check_required (field # rest) od =
     (if od field = None
      then Inl (HTTPException 400 (''Missing required field: '' @ field))
      else check_required rest od)"

text \<open>The dict literal \<open>new_order\<close>, its items evaluated in the order written.\<close>

definition new_order :: "order_data \<Rightarrow> pyexn + pydict" where
  "new_order od =
     bind_exn (od_item od ''action'') (\<lambda>action.
     bind_exn (od_item od ''quantity'') (\<lambda>total.
     bind_exn (od_item od ''orderType'') (\<lambda>order_type.
     bind_exn (od_item od ''quantity'') (\<lambda>remaining.
     bind_exn (od_item od ''symbol'') (\<lambda>symbol.
       Inr [ (''orderId'', PInt 2),
             (''clientId'', PInt 1),
             (''action'', action),
             (''totalQuantity'', total),
             (''orderType'', order_type),
             (''lmtPrice'', od_get od ''limitPrice'' (PFloat 0 1)),
             (''auxPrice'', od_get od ''stopPrice'' (PFloat 0 1)),
             (''status'', PStr ''PreSubmitted''),
             (''filled'', PInt 0),
             (''remaining'', remaining),
             (''avgFillPrice'', PFloat 0 1),
             (''lastFillPrice'', PFloat 0 1),
             (''symbol'', symbol),
             (''secType'', od_get od ''secType'' (PStr ''STK'')),
             (''exchange'', od_get od ''exchange'' (PStr ''SMART'')) ])))))"

definition place_order_response :: "order_data \<Rightarrow> pyexn + pydict" where
  "place_order_response od =
     bind_exn (check_required required_fields od) (\<lambda>_. new_order od)"

definition place_order :: "order_data \<Rightarrow> string \<Rightarrow> gstate \<Rightarrow> (pyexn + pyval) \<times> gstate" where
  "place_order od now s =
     (case connection_check
             (scope_of [] [''connected'', ''required_fields'', ''field'', ''new_order'']
                ''connected'')
             now Map.empty s of
        (Inl e, s') \<Rightarrow> (Inl e, s')
      | (Inr fr, s') \<Rightarrow>
          (case place_order_response od of
             Inl e \<Rightarrow> (Inl e, s')
           | Inr d \<Rightarrow> (Inr (PDict d), s')))"

definition cancel_order_response :: "int \<Rightarrow> string \<Rightarrow> pydict" where
  "cancel_order_response order_id ts =
     [ (''orderId'', PInt order_id),
       (''status'', PStr ''Cancelled''),
       (''message'', PStr ''Order cancelled successfully''),
       (''timestamp'', PStr ts) ]"

definition cancel_order :: "int \<Rightarrow> string \<Rightarrow> string \<Rightarrow> gstate \<Rightarrow> (pyexn + pyval) \<times> gstate" where
  "cancel_order order_id now ts s =
     (case connection_check (scope_of [] [''connected''] ''connected'') now Map.empty s of
        (Inl e, s') \<Rightarrow> (Inl e, s')
      | (Inr fr, s') \<Rightarrow> (Inr (PDict (cancel_order_response order_id ts)), s'))"

text \<open>
  \<open>get_market_data(symbol, sec_type="STK", exchange="SMART", currency="USD")\<close>: the
  arguments are the values after the framework has applied the defaults.
\<close>

definition get_market_data_response :: "string \<Rightarrow> string \<Rightarrow> string \<Rightarrow> string \<Rightarrow> string \<Rightarrow> pydict" where
  "get_market_data_response symbol sec_type exchange currency ts =
     [ (''symbol'', PStr symbol),
       (''secType'', PStr sec_type),
       (''exchange'', PStr exchange),
       (''currency'', PStr currency),
       (''last'', PFloat 1550 1),
       (''bid'', PFloat 1549 1),
       (''ask'', PFloat 1551 1),
       (''high'', PFloat 1560 1),
       (''low'', PFloat 1540 1),
       (''volume'', PInt 5000000),
       (''timestamp'', PStr ts) ]"

definition get_market_data ::
  "string \<Rightarrow> string \<Rightarrow> string \<Rightarrow> string \<Rightarrow> string \<Rightarrow> string \<Rightarrow> gstate
     \<Rightarrow> (pyexn + pyval) \<times> gstate" where
  "get_market_data symbol sec_type exchange currency now ts s =
     (case connection_check (scope_of [] [''connected''] ''connected'') now Map.empty s of
        (Inl e, s') \<Rightarrow> (Inl e, s')
      | (Inr fr, s') \<Rightarrow>
          (Inr (PDict (get_market_data_response symbol sec_type exchange currency ts)), s'))"

section \<open>The application: routes and a run of requests\<close>

datatype request =
    Startup
  | Shutdown
  | GET_health
  | GET_status
  | POST_connect
  | POST_disconnect
  | GET_accounts
  | GET_positions
  | GET_orders
  | POST_orders order_data
  | DELETE_orders int
  | GET_marketdata string string string string

text \<open>
  One event of a run: the \<open>X-API-Key\<close> header the request carries (if any), the two
  clock readings the handler may take, and the route with its arguments. Every route but
  \<open>/health\<close> runs the security dependency first; the lifecycle events carry no header.
\<close>

record event =
  api_key_hdr :: "string option"
  clock :: string
  clock2 :: string
  route :: request

definition handler :: "environ \<Rightarrow> event \<Rightarrow> gstate \<Rightarrow> (pyexn + pyval) \<times> gstate" where
  "handler env ev s =
     (case route ev of
        Startup \<Rightarrow> (Inr PNone, startup_event s)
      | Shutdown \<Rightarrow> (Inr PNone, shutdown_event s)
      | GET_health \<Rightarrow> (Inr (health_check env (clock ev) s), s)
      | GET_status \<Rightarrow> (Inr (get_status s), s)
      | POST_connect \<Rightarrow> connect (clock ev) (clock2 ev) s
      | POST_disconnect \<Rightarrow> disconnect (clock ev) s
      | GET_accounts \<Rightarrow> get_accounts env (clock ev) s
      | GET_positions \<Rightarrow> get_positions (clock ev) s
      | GET_orders \<Rightarrow> get_orders (clock ev) s
      | POST_orders od \<Rightarrow> place_order od (clock ev) s
      | DELETE_orders order_id \<Rightarrow> cancel_order order_id (clock ev) (clock2 ev) s
      | GET_marketdata symbol sec_type exchange currency \<Rightarrow>
          get_market_data symbol sec_type exchange currency (clock ev) (clock2 ev) s)"

definition protected :: "request \<Rightarrow> bool" where
  "protected r = (r \<noteq> Startup \<and> r \<noteq> Shutdown \<and> r \<noteq> GET_health)"

definition serve :: "nat \<Rightarrow> environ \<Rightarrow> event \<Rightarrow> gstate \<Rightarrow> (pyexn + pyval) \<times> gstate" where
  "serve missing_status env ev s =
     (if protected (route ev)
      then (case depends_verify_api_key missing_status env (api_key_hdr ev) of
              Inl e \<Rightarrow> (Inl e, s)
            | Inr k \<Rightarrow> handler env ev s)
      else handler env ev s)"

fun run :: "nat \<Rightarrow> environ \<Rightarrow> event list \<Rightarrow> gstate \<Rightarrow> gstate" where
  "run missing_status env [] s = s"
| "run missing_status env (ev # evs) s =
     run missing_status env evs (snd (serve missing_status env ev s))"

section \<open>Predicates and concrete requests used in the statements\<close>










text \<open>
  The invariant of the two session globals: while the flag \<open>connected\<close> is set,
  \<open>server_state\<close> says so too, and \<open>error_message\<close> is still \<open>None\<close>.
\<close>

definition session_inv :: "gstate \<Rightarrow> bool" where
  "session_inv s =
     ((\<not> connected s \<or>
        (map_of (server_state s) ''status'' = Some (PStr ''connected'')
         \<and> map_of (server_state s) ''connected'' = Some (PBool True)))
      \<and> map_of (server_state s) ''error_message'' = Some PNone)"


definition unset_env :: environ where
  "unset_env = map_of []"

definition no_locals :: frame where
  "no_locals = map_of []"


definition example_order :: order_data where
  "example_order = map_of
     [ (''symbol'', PStr ''AAPL''), (''action'', PStr ''BUY''), (''quantity'', PInt 100),
       (''orderType'', PStr ''LMT''), (''limitPrice'', PFloat 1500 1) ]"







section \<open>The connection check of the data handlers\<close>

lemma connection_check_local_unbound:
  "fr ''connected'' = None \<Longrightarrow>
     connection_check Local now fr s = (Inl (UnboundLocalError ''connected''), s)"
  by (simp add: connection_check_def load_connected_def)

lemma handler_scope_local: "scope_of [] (''connected'' # names) ''connected'' = Local"
  by (simp add: scope_of_def)

lemma data_handlers_unbound:
  "get_accounts env now s = (Inl (UnboundLocalError ''connected''), s)"
  "get_positions now s = (Inl (UnboundLocalError ''connected''), s)"
  "get_orders now s = (Inl (UnboundLocalError ''connected''), s)"
  "place_order od now s = (Inl (UnboundLocalError ''connected''), s)"
  "cancel_order order_id now ts s = (Inl (UnboundLocalError ''connected''), s)"
  "get_market_data symbol sec_type exchange currency now ts s
     = (Inl (UnboundLocalError ''connected''), s)"
  by (simp_all add: get_accounts_def get_positions_def get_orders_def place_order_def
        cancel_order_def get_market_data_def handler_scope_local
        connection_check_local_unbound)

lemma connect_to_ib_try_ok: "fst (connect_to_ib_try now s) = Inr True"
  by (simp add: connect_to_ib_try_def Let_def set_item_def)

lemma connect_to_ib_True: "fst (connect_to_ib now s) = True"
  by (simp add: connect_to_ib_def connect_to_ib_try_def Let_def set_item_def)

lemma connect_to_ib_connected: "connected (snd (connect_to_ib now s))"
  by (simp add: connect_to_ib_def connect_to_ib_try_def Let_def set_item_def)

lemma connection_check_never_503:
  "fst (connection_check sc now fr s) \<noteq> Inl (HTTPException 503 d)"
proof (cases sc)
  case Local
  show ?thesis
  proof (cases "fr ''connected''")
    case None
    with Local show ?thesis by (simp add: connection_check_local_unbound)
  next
    case (Some v)
    with Local show ?thesis
      using connect_to_ib_True [of now s]
      by (auto simp: connection_check_def load_connected_def store_connected_def
            split: prod.splits)
  qed
next
  case Global
  then show ?thesis
    using connect_to_ib_True [of now s]
    by (auto simp: connection_check_def load_connected_def store_connected_def
          split: prod.splits)
qed

text \<open>
  Claim C2. In each of get_accounts, get_positions, get_orders, place_order, cancel_order
  and get_market_data the name \<open>connected\<close> is assigned and not declared global, so it is
  a local of the handler; the first statement reads it before any assignment. Every
  call of these handlers, in every state of the globals and for all arguments,
  therefore ends in UnboundLocalError for \<open>connected\<close> and leaves the globals as they
  were: the result is neither the 503, nor a validation error, nor a mock response.
\<close>

theorem handlers_raise_UnboundLocalError:
  "scope_of [] [''connected'', ''account''] ''connected'' = Local
   \<and> get_accounts env now s = (Inl (UnboundLocalError ''connected''), s)
   \<and> get_positions now s = (Inl (UnboundLocalError ''connected''), s)
   \<and> get_orders now s = (Inl (UnboundLocalError ''connected''), s)
   \<and> place_order od now s = (Inl (UnboundLocalError ''connected''), s)
   \<and> cancel_order order_id now ts s = (Inl (UnboundLocalError ''connected''), s)
   \<and> get_market_data symbol sec_type exchange currency now ts s
        = (Inl (UnboundLocalError ''connected''), s)"
  by (simp add: data_handlers_unbound handler_scope_local)

text \<open>
  Claim C1, as the code has it. No request to the six data endpoints is answered with
  503, connected or not: the 503 branch sits behind a reconnect-on-read
  (\<open>connect_to_ib\<close>) that succeeds in every state, whichever way the name \<open>connected\<close> is
  resolved. A \<open>POST /orders\<close> records no order: the only change it can make to the
  process state is the one \<open>connect_to_ib\<close> makes.
\<close>

theorem data_endpoints_never_503:
  "fst (connection_check sc now fr s) \<noteq> Inl (HTTPException 503 d)
   \<and> fst (get_accounts env now s) \<noteq> Inl (HTTPException 503 d)
   \<and> fst (get_positions now s) \<noteq> Inl (HTTPException 503 d)
   \<and> fst (get_orders now s) \<noteq> Inl (HTTPException 503 d)
   \<and> fst (place_order od now s) \<noteq> Inl (HTTPException 503 d)
   \<and> fst (cancel_order order_id now ts s) \<noteq> Inl (HTTPException 503 d)
   \<and> fst (get_market_data symbol sec_type exchange currency now ts s)
        \<noteq> Inl (HTTPException 503 d)
   \<and> (snd (place_order od now s) = s
        \<or> snd (place_order od now s) = snd (connect_to_ib now s))"
  by (simp add: connection_check_never_503 data_handlers_unbound)

text \<open>
  The claim as the specification words it fails in the initial, disconnected state:
  \<open>GET /accounts\<close> and \<open>POST /orders\<close> end in UnboundLocalError, not in a 503; and were
  \<open>connected\<close> resolved as the global, the check would reconnect and pass.
\<close>

theorem disconnected_request_counterexample:
  "\<not> connected (module_init unset_env ''t0'')
   \<and> fst (get_accounts unset_env ''t1'' (module_init unset_env ''t0''))
        = Inl (UnboundLocalError ''connected'')
   \<and> fst (place_order example_order ''t1'' (module_init unset_env ''t0''))
        = Inl (UnboundLocalError ''connected'')
   \<and> fst (connection_check Global ''t1'' no_locals (module_init unset_env ''t0''))
        = Inr no_locals"
  by (simp add: data_handlers_unbound module_init_def connection_check_def
        load_connected_def store_connected_def connect_to_ib_def connect_to_ib_try_def
        Let_def set_item_def)

section \<open>The session globals along a run\<close>

lemma session_inv_init: "session_inv (module_init env t0)"
  by (simp add: session_inv_def module_init_def)

lemma session_inv_connect_to_ib:
  "session_inv s \<Longrightarrow> session_inv (snd (connect_to_ib now s))"
  by (simp add: session_inv_def connect_to_ib_def connect_to_ib_try_def Let_def
        set_item_def update_conv')

lemma session_inv_disconnect_from_ib:
  "session_inv s \<Longrightarrow> session_inv (snd (disconnect_from_ib s))"
  by (simp add: session_inv_def disconnect_from_ib_def disconnect_from_ib_try_def Let_def
        set_item_def update_conv')

lemma snd_connect: "snd (connect now ts s) = snd (connect_to_ib now s)"
  by (simp add: connect_def split: prod.splits sum.splits)

lemma snd_disconnect: "snd (disconnect ts s) = snd (disconnect_from_ib s)"
  by (simp add: disconnect_def split: prod.splits sum.splits)

lemma session_inv_handler: "session_inv s \<Longrightarrow> session_inv (snd (handler env ev s))"
  by (cases "route ev")
     (simp_all add: handler_def startup_event_def shutdown_event_def snd_connect
        snd_disconnect session_inv_connect_to_ib session_inv_disconnect_from_ib
        data_handlers_unbound)

lemma session_inv_serve: "session_inv s \<Longrightarrow> session_inv (snd (serve ms env ev s))"
  by (simp add: serve_def session_inv_handler split: sum.splits)

lemma session_inv_run: "session_inv s \<Longrightarrow> session_inv (run ms env evs s)"
  by (induction evs arbitrary: s) (simp_all add: session_inv_serve)

lemma connect_to_ib_status:
  "session_inv s \<Longrightarrow>
     map_of (server_state (snd (connect_to_ib now s))) ''status'' = Some (PStr ''connected'')
     \<and> map_of (server_state (snd (connect_to_ib now s))) ''connected'' = Some (PBool True)"
  by (auto simp: session_inv_def connect_to_ib_def connect_to_ib_try_def Let_def
        set_item_def update_conv')

lemma connect_response:
  "session_inv s \<Longrightarrow>
     fst (connect now ts s) =
       Inr (PDict [(''success'', PBool True), (''status'', PStr ''connected''),
                   (''timestamp'', PStr ts)])"
  using connect_to_ib_status [of s now] connect_to_ib_True [of now s]
  by (auto simp: connect_def get_item_def split: prod.splits)

text \<open>
  Claim C10. The \<open>try\<close> block of \<open>connect_to_ib\<close> never raises, so its \<open>except\<close> branch is
  not reached; \<open>connect_to_ib\<close> returns True in every state and leaves the flag
  \<open>connected\<close> set. In every state the process can be in (the module's initial state
  followed by any sequence of lifecycle events and requests, with any headers),
  \<open>server_state\<close> afterwards has \<open>connected = True\<close> and \<open>status = "connected"\<close>, and
  \<open>POST /connect\<close> answers \<open>success = true\<close>, \<open>status = "connected"\<close>, with
  \<open>error_message\<close> still \<open>None\<close>.
\<close>

theorem connect_to_ib_always_succeeds:
  "fst (connect_to_ib_try now s) = Inr True
   \<and> fst (connect_to_ib now s) = True
   \<and> connected (snd (connect_to_ib now s))
   \<and> map_of (server_state (snd (connect_to_ib now (run ms env evs (module_init env t0)))))
        ''connected'' = Some (PBool True)
   \<and> map_of (server_state (snd (connect_to_ib now (run ms env evs (module_init env t0)))))
        ''status'' = Some (PStr ''connected'')
   \<and> fst (connect now ts (run ms env evs (module_init env t0))) =
        Inr (PDict [(''success'', PBool True), (''status'', PStr ''connected''),
                    (''timestamp'', PStr ts)])
   \<and> map_of (server_state (snd (connect now ts (run ms env evs (module_init env t0)))))
        ''error_message'' = Some PNone"
proof -
  have inv: "session_inv (run ms env evs (module_init env t0))"
    by (rule session_inv_run [OF session_inv_init])
  have after: "session_inv (snd (connect_to_ib now (run ms env evs (module_init env t0))))"
    by (rule session_inv_connect_to_ib [OF inv])
  show ?thesis
    using connect_to_ib_status [OF inv, of now] connect_response [OF inv, of now ts] after
    by (simp add: connect_to_ib_try_ok connect_to_ib_True connect_to_ib_connected
          snd_connect session_inv_def)
qed

section \<open>The API key\<close>




text \<open>
  Claim C5, as the code has it. \<open>verify_api_key\<close> returns exactly when the value it is
  handed is string-equal to \<open>API_KEY\<close>, the value of the environment variable read at
  import with default \<open>""\<close>, and a request passes the security dependency exactly when
  its \<open>X-API-Key\<close> header is non-empty and string-equal to \<open>API_KEY\<close>. When the variable
  is unset or empty the expected key is the empty string, which \<open>verify_api_key\<close> would
  accept; but a request with an empty header never reaches it, so in that case every
  request to a protected route is rejected, whatever header it carries, and leaves the
  globals as they were.
\<close>

theorem api_key_authorization:
  "((\<exists>k'. verify_api_key env k = Inr k') = (k = API_KEY env))
   \<and> (verify_api_key env (API_KEY env) = Inr (API_KEY env))
   \<and> ((depends_verify_api_key ms env hdr = Inr k)
        = (hdr = Some k \<and> k \<noteq> [] \<and> k = API_KEY env))
   \<and> (env ''API_KEY'' = None \<or> env ''API_KEY'' = Some []
        \<longrightarrow> API_KEY env = [] \<and> verify_api_key env [] = Inr []
            \<and> isl (depends_verify_api_key ms env hdr)
            \<and> (protected (route ev)
                 \<longrightarrow> isl (fst (serve ms env ev s)) \<and> snd (serve ms env ev s) = s))"
proof -
  have fn: "(\<exists>k'. verify_api_key env k = Inr k') = (k = API_KEY env)"
    by (auto simp: verify_api_key_def)
  have own: "verify_api_key env (API_KEY env) = Inr (API_KEY env)"
    by (simp add: verify_api_key_def)
  have dep: "(depends_verify_api_key ms env hdr = Inr k)
               = (hdr = Some k \<and> k \<noteq> [] \<and> k = API_KEY env)"
    by (cases hdr)
       (auto simp: depends_verify_api_key_def api_key_header_def verify_api_key_def)
  have unset: "API_KEY env = [] \<and> verify_api_key env [] = Inr []
      \<and> isl (depends_verify_api_key ms env hdr)
      \<and> (protected (route ev)
           \<longrightarrow> isl (fst (serve ms env ev s)) \<and> snd (serve ms env ev s) = s)"
    if u: "env ''API_KEY'' = None \<or> env ''API_KEY'' = Some []"
  proof -
    from u have key: "API_KEY env = []"
      by (auto simp: API_KEY_def environ_get_def)
    have rejected: "isl (depends_verify_api_key ms env h)" for h
      using key
      by (cases h)
         (auto simp: depends_verify_api_key_def api_key_header_def verify_api_key_def)
    from rejected [of "api_key_hdr ev"]
    have "protected (route ev)
            \<longrightarrow> isl (fst (serve ms env ev s)) \<and> snd (serve ms env ev s) = s"
      by (auto simp: serve_def split: sum.splits)
    with key rejected [of hdr] show ?thesis
      by (simp add: verify_api_key_def)
  qed
  from fn own dep unset show ?thesis by blast
qed

theorem api_key_authorization_witness:
  "unset_env ''API_KEY'' = None
   \<and> API_KEY unset_env = []
   \<and> verify_api_key unset_env [] = Inr []
   \<and> isl (depends_verify_api_key 403 unset_env (Some ''guess''))
   \<and> protected GET_status
   \<and> isl (fst (serve 403 unset_env
                 \<lparr>api_key_hdr = Some ''guess'', clock = ''t1'', clock2 = ''t2'',
                   route = GET_status\<rparr>
                 (module_init unset_env ''t0'')))"
proof -
  have u: "unset_env ''API_KEY'' = None" by (simp add: unset_env_def)
  have p: "protected GET_status" by (simp add: protected_def)
  from api_key_authorization
         [of unset_env "[]" 403 "Some ''guess''"
             "\<lparr>api_key_hdr = Some ''guess'', clock = ''t1'', clock2 = ''t2'',
               route = GET_status\<rparr>"
             "module_init unset_env ''t0''"]
       u p
  show ?thesis by simp
qed

text \<open>
  With \<open>API_KEY\<close> unset, a request that presents an empty \<open>X-API-Key\<close> is not authorized:
  the header dependency answers "Not authenticated" with its own status code, be that
  403 or 401, although \<open>verify_api_key\<close> itself would accept the empty string.
\<close>

theorem empty_key_counterexample:
  "API_KEY unset_env = []
   \<and> verify_api_key unset_env [] = Inr []
   \<and> serve 403 unset_env
        \<lparr>api_key_hdr = Some [], clock = ''t1'', clock2 = ''t2'', route = GET_status\<rparr>
        (module_init unset_env ''t0'')
     = (Inl (HTTPException 403 ''Not authenticated''), module_init unset_env ''t0'')
   \<and> serve 401 unset_env
        \<lparr>api_key_hdr = Some [], clock = ''t1'', clock2 = ''t2'', route = GET_status\<rparr>
        (module_init unset_env ''t0'')
     = (Inl (HTTPException 401 ''Not authenticated''), module_init unset_env ''t0'')"
  by (simp add: API_KEY_def environ_get_def unset_env_def verify_api_key_def serve_def
        protected_def depends_verify_api_key_def api_key_header_def)

section \<open>Order placement\<close>




















section \<open>Order cancellation\<close>



end
